theory Spec2Isabelle
  imports Complex_Main "HOL-Library.Multiset" "HOL-Library.Product_Lexorder"
begin

section \<open>JavaScript numbers\<close>

text \<open>
  A JavaScript \<^verbatim>\<open>number\<close> is either a finite value or one of the three
  non-finite values. Finite values are modelled as exact rationals: IEEE rounding
  and the sign of zero are not modelled. The non-finite values are kept, because
  the program's own arithmetic can produce them from finite inputs (a division
  by zero).

  The arithmetic below is therefore exact where the program rounds to a double:
  a quotient that is a whole number here can fall just below it in the program,
  a product or power that is finite here can overflow there, and \<open>1 + x\<close> for
  a tiny \<open>x\<close> is above 1 here and equal to 1 there. The properties below are
  stated so that they do not rest on such a difference: they compare with a
  margin far above the rounding error, or follow from the sign of a difference
  and the monotonicity of rounding, and where a power occurs they bound the rate
  and the term.
\<close>

datatype jsnum = Fin rat | PosInf | NegInf | NaN

fun jneg :: "jsnum \<Rightarrow> jsnum" where
  "jneg (Fin a) = Fin (- a)"
| "jneg PosInf = NegInf"
| "jneg NegInf = PosInf"
| "jneg NaN = NaN"

fun jadd :: "jsnum \<Rightarrow> jsnum \<Rightarrow> jsnum" where
  "jadd NaN _ = NaN"
| "jadd _ NaN = NaN"
| "jadd (Fin a) (Fin b) = Fin (a + b)"
| "jadd PosInf NegInf = NaN"
| "jadd NegInf PosInf = NaN"
| "jadd PosInf _ = PosInf"
| "jadd NegInf _ = NegInf"
| "jadd (Fin a) b = b"

definition jsub :: "jsnum \<Rightarrow> jsnum \<Rightarrow> jsnum" where
  "jsub a b = jadd a (jneg b)"

text \<open>The sign of a number: 1, 0 or -1, and \<open>None\<close> for \<open>NaN\<close>.\<close>

fun jsign :: "jsnum \<Rightarrow> int option" where
  "jsign (Fin a) = Some (if a < 0 then - 1 else if a = 0 then 0 else 1)"
| "jsign PosInf = Some 1"
| "jsign NegInf = Some (- 1)"
| "jsign NaN = None"

definition infOfSign :: "int \<Rightarrow> jsnum" where
  "infOfSign s = (if s = 0 then NaN else if s < 0 then NegInf else PosInf)"

fun jmul :: "jsnum \<Rightarrow> jsnum \<Rightarrow> jsnum" where
  "jmul (Fin a) (Fin b) = Fin (a * b)"
| "jmul a b =
     (case (jsign a, jsign b) of
        (Some s, Some t) \<Rightarrow> infOfSign (s * t)
      | _ \<Rightarrow> NaN)"

text \<open>
  Division: a finite value divided by zero is an infinity of the sign of the
  dividend, and zero divided by zero is \<open>NaN\<close>.
\<close>

fun jdiv :: "jsnum \<Rightarrow> jsnum \<Rightarrow> jsnum" where
  "jdiv NaN _ = NaN"
| "jdiv _ NaN = NaN"
| "jdiv (Fin a) (Fin b) =
     (if b \<noteq> 0 then Fin (a / b)
      else if a = 0 then NaN else if a < 0 then NegInf else PosInf)"
| "jdiv (Fin a) _ = Fin 0"
| "jdiv PosInf (Fin b) = (if b < 0 then NegInf else PosInf)"
| "jdiv NegInf (Fin b) = (if b < 0 then PosInf else NegInf)"
| "jdiv _ _ = NaN"

text \<open>Comparisons: every comparison with \<open>NaN\<close> is false.\<close>

fun jle :: "jsnum \<Rightarrow> jsnum \<Rightarrow> bool" where
  "jle NaN _ = False"
| "jle _ NaN = False"
| "jle (Fin a) (Fin b) = (a \<le> b)"
| "jle NegInf _ = True"
| "jle _ PosInf = True"
| "jle _ _ = False"

fun jlt :: "jsnum \<Rightarrow> jsnum \<Rightarrow> bool" where
  "jlt NaN _ = False"
| "jlt _ NaN = False"
| "jlt (Fin a) (Fin b) = (a < b)"
| "jlt PosInf _ = False"
| "jlt _ NegInf = False"
| "jlt _ _ = True"

text \<open>\<^verbatim>\<open>a >= b\<close> and \<^verbatim>\<open>a > b\<close>.\<close>

definition jge :: "jsnum \<Rightarrow> jsnum \<Rightarrow> bool" where
  "jge a b = jle b a"

definition jgt :: "jsnum \<Rightarrow> jsnum \<Rightarrow> bool" where
  "jgt a b = jlt b a"

text \<open>\<^verbatim>\<open>a === b\<close> on numbers: \<open>NaN\<close> is not equal to itself.\<close>

definition jeq :: "jsnum \<Rightarrow> jsnum \<Rightarrow> bool" where
  "jeq a b = (a \<noteq> NaN \<and> a = b)"

text \<open>\<^verbatim>\<open>Math.max(a, b)\<close>: \<open>NaN\<close> if either argument is.\<close>

definition Math_max :: "jsnum \<Rightarrow> jsnum \<Rightarrow> jsnum" where
  "Math_max a b = (if a = NaN \<or> b = NaN then NaN else if jle a b then b else a)"

text \<open>\<^verbatim>\<open>Math.floor\<close>.\<close>

fun Math_floor :: "jsnum \<Rightarrow> jsnum" where
  "Math_floor (Fin a) = Fin (of_int \<lfloor>a\<rfloor>)"
| "Math_floor x = x"

text \<open>
  \<^verbatim>\<open>Math.pow(b, n)\<close> for an exponent that is a whole number \<open>n \<ge> 0\<close>;
  \<^verbatim>\<open>Math.pow(x, 0)\<close> is 1 for every \<open>x\<close>.
\<close>

fun Math_pow :: "jsnum \<Rightarrow> nat \<Rightarrow> jsnum" where
  "Math_pow b 0 = Fin 1"
| "Math_pow b (Suc n) = jmul b (Math_pow b n)"

text \<open>Truthiness of a number: \<open>0\<close> and \<open>NaN\<close> are falsy.\<close>

definition truthy :: "jsnum \<Rightarrow> bool" where
  "truthy a = (a \<noteq> Fin 0 \<and> a \<noteq> NaN)"

section \<open>Dates\<close>

text \<open>
  A \<^verbatim>\<open>Date\<close> is modelled by its local calendar components, named after the
  accessors the program reads: the full year, the month index (0 for January to
  11 for December) and the day of the month. The time of day is not modelled:
  the scheduler compares start-of-day dates only, and the evaluator reads the
  calendar components only.
\<close>

record Date =
  getFullYear :: int
  getMonth :: int
  getDate :: int

definition leapYear :: "int \<Rightarrow> bool" where
  "leapYear y = (y mod 4 = 0 \<and> (y mod 100 \<noteq> 0 \<or> y mod 400 = 0))"

definition daysInMonth :: "int \<Rightarrow> int \<Rightarrow> int" where
  "daysInMonth y m =
     (if m = 1 then (if leapYear y then 29 else 28)
      else if m = 3 \<or> m = 5 \<or> m = 8 \<or> m = 10 then 30 else 31)"

definition nextMonth :: "int \<times> int \<Rightarrow> int \<times> int" where
  "nextMonth ym = (if snd ym \<ge> 11 then (fst ym + 1, 0) else (fst ym, snd ym + 1))"

definition prevMonth :: "int \<times> int \<Rightarrow> int \<times> int" where
  "prevMonth ym = (if snd ym \<le> 0 then (fst ym - 1, 11) else (fst ym, snd ym - 1))"

text \<open>
  The day of a \<^verbatim>\<open>Date\<close> built from components is counted from the first of
  the month, and a day outside the month carries into the following months
  (or borrows from the preceding ones).
\<close>

function carryDay :: "int \<Rightarrow> int \<Rightarrow> int \<Rightarrow> Date" where
  "carryDay y m d =
     (if d < 1 then
        (let p = prevMonth (y, m) in carryDay (fst p) (snd p) (d + daysInMonth (fst p) (snd p)))
      else if d > daysInMonth y m then
        (let n = nextMonth (y, m) in carryDay (fst n) (snd n) (d - daysInMonth y m))
      else \<lparr>getFullYear = y, getMonth = m, getDate = d\<rparr>)"
  by pat_completeness auto
termination
proof (relation "measure (\<lambda>(y, m, d). if d < 1 then nat (32 - d) else nat d)", goal_cases)
  case 1
  show ?case by simp
next
  case (2 y m d p)
  have "28 \<le> daysInMonth (fst p) (snd p)" "daysInMonth (fst p) (snd p) \<le> 31"
    by (simp_all add: daysInMonth_def)
  with 2 show ?case by auto
next
  case (3 y m d n)
  have "28 \<le> daysInMonth y m" by (simp add: daysInMonth_def)
  with 3 show ?case by auto
qed

declare carryDay.simps [simp del]

text \<open>
  \<^verbatim>\<open>new Date(year, monthIndex, day)\<close>: a year from 0 to 99 stands for 1900
  to 1999, a month index outside 0..11 carries into the year, and the day carries
  into the month.
\<close>

definition fullYear :: "int \<Rightarrow> int" where
  "fullYear y = (if 0 \<le> y \<and> y \<le> 99 then 1900 + y else y)"

definition newDate :: "int \<Rightarrow> int \<Rightarrow> int \<Rightarrow> Date" where
  "newDate y m d = carryDay (fullYear y + m div 12) (m mod 12) d"

text \<open>
  Dates are compared by their time stamps; for start-of-day dates that is the
  lexicographic order of year, month and day.
\<close>

definition getTime :: "Date \<Rightarrow> int \<times> int \<times> int" where
  "getTime d = (getFullYear d, getMonth d, getDate d)"

section \<open>The data model (types.ts)\<close>

record ToyotaVehicle =
  model :: string
  price :: jsnum
  description :: string
  image :: string
  tags_style :: string
  tags_useCase :: string
  seatingCapacity :: jsnum
  specialOffer :: "string option"

text \<open>The loan term is a whole number of years.\<close>

record UserInput =
  income :: jsnum
  creditScore :: jsnum
  downPayment :: jsnum
  loanTerm :: nat
  minSeats :: jsnum
  preferences_style :: "string list"
  preferences_useCase :: "string list"
  preferences_description :: string

record SimpleFinancingPlan =
  sp_monthlyPayment :: jsnum
  sp_totalCost :: jsnum
  sp_interestRate :: jsnum
  sp_loanAmount :: jsnum

record FinancingPlan =
  fp_monthlyPayment :: jsnum
  fp_totalCost :: jsnum
  fp_interestRate :: jsnum
  fp_loanAmount :: jsnum
  fp_loanTerm :: nat

record LeasingPlan =
  lp_monthlyPayment :: jsnum
  lp_dueAtSigning :: jsnum
  lp_term :: nat
  lp_moneyFactor :: jsnum
  lp_residualValue :: jsnum

text \<open>The tag \<^verbatim>\<open>planType\<close> of a plan is the constructor.\<close>

datatype VehiclePlan = FinancingP FinancingPlan | LeasingP LeasingPlan

record SavedAlignment =
  sa_id :: string
  sa_vehicle :: ToyotaVehicle
  sa_userInput :: UserInput
  sa_plan :: VehiclePlan
  sa_savedAt :: string

datatype PlanType = Financing | Leasing

record ActiveLoan =
  loan_id :: string
  vehicleModel :: string
  imageUrl :: string
  monthlyPayment :: jsnum
  totalCost :: jsnum
  loanStartDate :: Date
  loanTermInMonths :: nat
  paymentDayOfMonth :: int
  color :: string
  amountLeft :: jsnum
  planType :: PlanType
  lastPaymentMonth :: "int option"
  initialLoanAmount :: "jsnum option"

datatype Sender = user | ai

record ChatMessage =
  sender :: Sender
  text_of :: string

type_synonym Conversation = "ChatMessage list"

record UserData =
  userInput :: UserInput
  savedAlignments :: "SavedAlignment list"
  chatbotConversations :: "Conversation list"
  activeLoans :: "ActiveLoan list"

section \<open>The payment ledger (handleMakePayment, PaymentModal)\<close>

text \<open>The period marker of a date: the year times 100 plus the month index.\<close>

definition currentMonthIdentifier :: "Date \<Rightarrow> int" where
  "currentMonthIdentifier now = getFullYear now * 100 + getMonth now"

text \<open>
  The function that \<^verbatim>\<open>handleMakePayment\<close> maps over the loans; \<open>now\<close> is
  the value of \<^verbatim>\<open>new Date()\<close>.
\<close>

definition makePaymentOnLoan :: "Date \<Rightarrow> string \<Rightarrow> jsnum \<Rightarrow> ActiveLoan \<Rightarrow> ActiveLoan" where
  "makePaymentOnLoan now loanId amount loan =
     (if loan_id loan = loanId then
        (if planType loan = Leasing
         then loan\<lparr>lastPaymentMonth := Some (currentMonthIdentifier now)\<rparr>
         else loan\<lparr>amountLeft := Math_max (Fin 0) (jsub (amountLeft loan) amount)\<rparr>)
      else loan)"

text \<open>The state update of \<^verbatim>\<open>handleMakePayment\<close>; the state may be \<^verbatim>\<open>null\<close>.\<close>

definition handleMakePayment ::
  "Date \<Rightarrow> string \<Rightarrow> jsnum \<Rightarrow> UserData option \<Rightarrow> UserData option" where
  "handleMakePayment now loanId amount prev =
     (case prev of
        None \<Rightarrow> None
      | Some u \<Rightarrow>
          Some (u\<lparr>activeLoans := map (makePaymentOnLoan now loanId amount) (activeLoans u)\<rparr>))"

definition floorToCent :: "jsnum \<Rightarrow> jsnum" where
  "floorToCent num = jdiv (Math_floor (jmul num (Fin 100))) (Fin 100)"

text \<open>
  \<^verbatim>\<open>handleSubmit\<close> of the payment form, with \<^verbatim>\<open>onPaymentSubmit\<close> bound to
  \<^verbatim>\<open>handleMakePayment\<close>: nothing is submitted without a loan or for an amount
  \<open>\<le> 0\<close>.
\<close>

definition handleSubmit ::
  "Date \<Rightarrow> ActiveLoan option \<Rightarrow> jsnum \<Rightarrow> UserData option \<Rightarrow> UserData option" where
  "handleSubmit now loan amount prev =
     (case loan of
        None \<Rightarrow> prev
      | Some l \<Rightarrow>
          if jle amount (Fin 0) then prev
          else handleMakePayment now (loan_id l) (floorToCent amount) prev)"

section \<open>The on-track evaluator (getOnTrackStatus)\<close>

text \<open>
  \<open>today\<close> is the value of \<^verbatim>\<open>new Date()\<close>. The estimate of the
  payments made is the exact quotient here and a rounded one in the program.
\<close>

definition getOnTrackStatus :: "Date \<Rightarrow> ActiveLoan \<Rightarrow> bool" where
  "getOnTrackStatus today vehicle =
     (let startDate = loanStartDate vehicle in
      if planType vehicle = Leasing then
        (let startMonthIdentifier = getFullYear startDate * 100 + getMonth startDate in
         if lastPaymentMonth vehicle = Some (currentMonthIdentifier today) then True
         else if startMonthIdentifier = currentMonthIdentifier today
                 \<and> getDate today < paymentDayOfMonth vehicle then True
         else False)
      else
        (if jle (amountLeft vehicle) (Fin 0) then True
         else case initialLoanAmount vehicle of
           None \<Rightarrow> True
         | Some initial \<Rightarrow>
             if \<not> truthy initial then True
             else
               (let monthsPassed = (getFullYear today - getFullYear startDate) * 12
                                   + (getMonth today - getMonth startDate);
                    paymentsDue = (if getDate today \<ge> paymentDayOfMonth vehicle
                                   then monthsPassed + 1 else monthsPassed)
                in if paymentsDue \<le> 0 then True
                   else
                     (let estimatedPaymentsMade =
                            jdiv (jsub initial (amountLeft vehicle)) (monthlyPayment vehicle)
                      in jge estimatedPaymentsMade (Fin (of_int (paymentsDue - 1)))))))"

section \<open>The commit engine (handleCommitAlignment)\<close>

definition GALAXY_COLORS :: "string list" where
  "GALAXY_COLORS = [''#9b59b6'', ''#3498db'', ''#1abc9c'', ''#e74c3c'', ''#f1c40f'',
                    ''#2ecc71'', ''#e67e22'']"

text \<open>
  The loan built from a saved plan; \<open>now\<close> is the value of \<^verbatim>\<open>new Date()\<close>
  and \<open>n\<close> the number of loans the user already has.
\<close>

definition newLoan :: "Date \<Rightarrow> SavedAlignment \<Rightarrow> nat \<Rightarrow> ActiveLoan" where
  "newLoan now alignmentToCommit n =
     (case sa_plan alignmentToCommit of
        FinancingP plan \<Rightarrow>
          \<lparr>loan_id = sa_id alignmentToCommit,
           vehicleModel = model (sa_vehicle alignmentToCommit),
           imageUrl = image (sa_vehicle alignmentToCommit),
           monthlyPayment = fp_monthlyPayment plan,
           totalCost = fp_totalCost plan,
           loanStartDate = now,
           loanTermInMonths = fp_loanTerm plan * 12,
           paymentDayOfMonth = getDate now,
           color = GALAXY_COLORS ! (n mod length GALAXY_COLORS),
           amountLeft = fp_loanAmount plan,
           planType = Financing,
           lastPaymentMonth = None,
           initialLoanAmount = Some (fp_loanAmount plan)\<rparr>
      | LeasingP plan \<Rightarrow>
          \<lparr>loan_id = sa_id alignmentToCommit,
           vehicleModel = model (sa_vehicle alignmentToCommit),
           imageUrl = image (sa_vehicle alignmentToCommit),
           monthlyPayment = lp_monthlyPayment plan,
           totalCost = jmul (lp_monthlyPayment plan) (Fin (of_nat (lp_term plan))),
           loanStartDate = now,
           loanTermInMonths = lp_term plan,
           paymentDayOfMonth = getDate now,
           color = GALAXY_COLORS ! (n mod length GALAXY_COLORS),
           amountLeft = Fin 0,
           planType = Leasing,
           lastPaymentMonth = None,
           initialLoanAmount = None\<rparr>)"

text \<open>
  The state update of \<^verbatim>\<open>handleCommitAlignment\<close>. The first component of the
  result is the message given to \<^verbatim>\<open>console.warn\<close>, if any; the second is the
  new state.
\<close>

definition handleCommitAlignment ::
  "Date \<Rightarrow> string \<Rightarrow> UserData option \<Rightarrow> string option \<times> UserData option" where
  "handleCommitAlignment now alignmentId prev =
     (case prev of
        None \<Rightarrow> (None, None)
      | Some u \<Rightarrow>
          (case find (\<lambda>a. sa_id a = alignmentId) (savedAlignments u) of
             None \<Rightarrow> (Some ''Plan not found.'', Some u)
           | Some alignmentToCommit \<Rightarrow>
               if list_ex (\<lambda>loan. loan_id loan = sa_id alignmentToCommit) (activeLoans u)
               then (Some ''This plan has already been committed.'', Some u)
               else (None,
                     Some (u\<lparr>activeLoans :=
                              activeLoans u
                              @ [newLoan now alignmentToCommit (length (activeLoans u))]\<rparr>))))"

section \<open>The calculators\<close>

text \<open>\<^verbatim>\<open>calculateMonthlyPayment\<close> of the application root.\<close>

definition calculateMonthlyPayment :: "jsnum \<Rightarrow> jsnum \<Rightarrow> nat \<Rightarrow> jsnum" where
  "calculateMonthlyPayment principal' annualRate years =
     (if jle principal' (Fin 0) then Fin 0
      else
        (let monthlyRate = jdiv annualRate (Fin 12);
             numberOfPayments = years * 12
         in if jeq monthlyRate (Fin 0)
            then jdiv principal' (Fin (of_nat numberOfPayments))
            else jdiv (jmul principal'
                         (jmul monthlyRate
                            (Math_pow (jadd (Fin 1) monthlyRate) numberOfPayments)))
                      (jsub (Math_pow (jadd (Fin 1) monthlyRate) numberOfPayments) (Fin 1))))"

text \<open>The plan computed for each recommended vehicle (\<^verbatim>\<open>finalVehicleRecommendations\<close>).\<close>

definition simpleFinancingPlan :: "jsnum \<Rightarrow> jsnum \<Rightarrow> jsnum \<Rightarrow> nat \<Rightarrow> SimpleFinancingPlan" where
  "simpleFinancingPlan vehiclePrice downPayment' interestRate loanTerm' =
     (let loanAmount = jsub vehiclePrice downPayment';
          monthlyPayment' = calculateMonthlyPayment loanAmount interestRate loanTerm';
          totalCost' = jadd (jmul monthlyPayment' (Fin (of_nat (loanTerm' * 12)))) downPayment'
      in \<lparr>sp_monthlyPayment = monthlyPayment', sp_totalCost = totalCost',
          sp_interestRate = interestRate, sp_loanAmount = loanAmount\<rparr>)"

text \<open>\<^verbatim>\<open>financingPlan\<close> of the financing page.\<close>

definition financingPlan :: "jsnum \<Rightarrow> UserInput \<Rightarrow> jsnum \<Rightarrow> FinancingPlan" where
  "financingPlan price' userInput' interestRate =
     (let loanAmount = jsub price' (downPayment userInput');
          monthlyRate = jdiv interestRate (Fin 12);
          numberOfPayments = loanTerm userInput' * 12;
          monthlyPayment' =
            (if jgt loanAmount (Fin 0)
             then jdiv (jmul loanAmount
                          (jmul monthlyRate
                             (Math_pow (jadd (Fin 1) monthlyRate) numberOfPayments)))
                       (jsub (Math_pow (jadd (Fin 1) monthlyRate) numberOfPayments) (Fin 1))
             else Fin 0);
          totalCost' = jadd (jmul monthlyPayment' (Fin (of_nat numberOfPayments)))
                            (downPayment userInput')
      in \<lparr>fp_monthlyPayment = monthlyPayment', fp_totalCost = totalCost',
          fp_interestRate = interestRate, fp_loanAmount = loanAmount,
          fp_loanTerm = loanTerm userInput'\<rparr>)"

text \<open>\<^verbatim>\<open>leasingPlan\<close> of the financing page.\<close>

definition leasingPlan :: "jsnum \<Rightarrow> UserInput \<Rightarrow> jsnum \<Rightarrow> LeasingPlan" where
  "leasingPlan price' userInput' interestRate =
     (let leaseTermMonths = 36;
          moneyFactor = jdiv interestRate (Fin 2400);
          residualValueRate = Fin (55 / 100);
          residualValue = jmul price' residualValueRate;
          capitalizedCost = jsub price' (downPayment userInput');
          depreciationFee = jdiv (jsub capitalizedCost residualValue)
                                 (Fin (of_nat leaseTermMonths));
          financeFee = jmul (jadd capitalizedCost residualValue) moneyFactor;
          monthlyPayment' = jadd depreciationFee financeFee
      in \<lparr>lp_monthlyPayment = monthlyPayment',
          lp_dueAtSigning = jadd (downPayment userInput') monthlyPayment',
          lp_term = leaseTermMonths,
          lp_moneyFactor = moneyFactor,
          lp_residualValue = residualValue\<rparr>)"

section \<open>The payment scheduler (allFuturePayments)\<close>

record Payment =
  date :: Date
  vehicle :: ActiveLoan
  remaining :: int

text \<open>
  The due date that the loop builds for the month index \<open>i\<close> of a loan:
  \<^verbatim>\<open>new Date(loanStartDate.getFullYear(), loanStartDate.getMonth() + i, vehicle.paymentDayOfMonth)\<close>.
\<close>

definition paymentDate :: "ActiveLoan \<Rightarrow> nat \<Rightarrow> Date" where
  "paymentDate v i =
     newDate (getFullYear (loanStartDate v)) (getMonth (loanStartDate v) + int i)
             (paymentDayOfMonth v)"

text \<open>
  The \<^verbatim>\<open>for\<close> loop over the month index \<open>i\<close> of one loan, pushing onto
  \<open>payments\<close>; \<open>today\<close> is the start of the current day.
\<close>

function paymentsLoop :: "Date \<Rightarrow> ActiveLoan \<Rightarrow> nat \<Rightarrow> Payment list \<Rightarrow> Payment list" where
  "paymentsLoop today v i payments =
     (if i < loanTermInMonths v then
        paymentsLoop today v (Suc i)
          (if getTime (paymentDate v i) \<ge> getTime today
           then payments @ [\<lparr>date = paymentDate v i, vehicle = v,
                             remaining = int (loanTermInMonths v) - int i\<rparr>]
           else payments)
      else payments)"
  by pat_completeness auto
termination
  by (relation "measure (\<lambda>(today, v, i, payments). loanTermInMonths v - i)") auto

declare paymentsLoop.simps [simp del]

text \<open>The \<^verbatim>\<open>forEach\<close> over the loans, then the stable sort by time stamp.\<close>

definition allFuturePayments :: "Date \<Rightarrow> ActiveLoan list \<Rightarrow> Payment list" where
  "allFuturePayments today userVehicles =
     sort_key (\<lambda>p. getTime (date p))
       (foldl (\<lambda>payments v. paymentsLoop today v 0 payments) [] userVehicles)"

text \<open>
  The calendar month that the month index \<open>i\<close> of a loan aims at: the start
  month plus \<open>i\<close>, as a year and a month index from 0 to 11.
\<close>

definition targetMonth :: "ActiveLoan \<Rightarrow> nat \<Rightarrow> int \<times> int" where
  "targetMonth v i =
     (fullYear (getFullYear (loanStartDate v)) + (getMonth (loanStartDate v) + int i) div 12,
      (getMonth (loanStartDate v) + int i) mod 12)"

section \<open>Example data\<close>

definition exampleDate :: Date where
  "exampleDate = \<lparr>getFullYear = 2024, getMonth = 6, getDate = 15\<rparr>"

definition laterDate :: Date where
  "laterDate = \<lparr>getFullYear = 2024, getMonth = 8, getDate = 20\<rparr>"

definition exampleVehicle :: ToyotaVehicle where
  "exampleVehicle = \<lparr>model = ''RAV4'', price = Fin 32000, description = ''Compact SUV'',
     image = ''RAV4.jpg'', tags_style = ''SUV'', tags_useCase = ''Family'',
     seatingCapacity = Fin 5, specialOffer = None\<rparr>"

definition exampleInput :: UserInput where
  "exampleInput = \<lparr>income = Fin 75000, creditScore = Fin 720, downPayment = Fin 5000,
     loanTerm = 5, minSeats = Fin 1, preferences_style = [], preferences_useCase = [],
     preferences_description = []\<rparr>"

definition examplePlan :: FinancingPlan where
  "examplePlan = \<lparr>fp_monthlyPayment = Fin 50, fp_totalCost = Fin 5600,
     fp_interestRate = Fin 0, fp_loanAmount = Fin 600, fp_loanTerm = 1\<rparr>"

definition exampleAlignment :: SavedAlignment where
  "exampleAlignment = \<lparr>sa_id = ''a1'', sa_vehicle = exampleVehicle,
     sa_userInput = exampleInput, sa_plan = FinancingP examplePlan,
     sa_savedAt = ''2024-07-15T10:00:00.000Z''\<rparr>"

definition exampleLoan :: ActiveLoan where
  "exampleLoan = \<lparr>loan_id = ''a1'', vehicleModel = ''RAV4'', imageUrl = ''RAV4.jpg'',
     monthlyPayment = Fin 50, totalCost = Fin 5600, loanStartDate = exampleDate,
     loanTermInMonths = 12, paymentDayOfMonth = 15, color = ''#9b59b6'',
     amountLeft = Fin 100, planType = Financing, lastPaymentMonth = None,
     initialLoanAmount = Some (Fin 600)\<rparr>"

definition exampleLease :: ActiveLoan where
  "exampleLease = \<lparr>loan_id = ''b2'', vehicleModel = ''Camry'', imageUrl = ''Camry.jpg'',
     monthlyPayment = Fin 300, totalCost = Fin 10800,
     loanStartDate = \<lparr>getFullYear = 2024, getMonth = 1, getDate = 10\<rparr>,
     loanTermInMonths = 36, paymentDayOfMonth = 10, color = ''#3498db'',
     amountLeft = Fin 0, planType = Leasing, lastPaymentMonth = None,
     initialLoanAmount = None\<rparr>"

definition exampleUser :: UserData where
  "exampleUser = \<lparr>userInput = exampleInput, savedAlignments = [exampleAlignment],
     chatbotConversations = [], activeLoans = [exampleLoan, exampleLease]\<rparr>"

definition freshUser :: UserData where
  "freshUser = \<lparr>userInput = exampleInput, savedAlignments = [exampleAlignment],
     chatbotConversations = [], activeLoans = []\<rparr>"

text \<open>
  An ordinary plan, as the financing page computes it in double precision for a
  price of 20000, a down payment of 5000 and five years at a rate of 0.065: a
  loan amount of 15000 and a monthly payment of 293.49222328093003. It is saved
  and committed on 15 July 2024; the first due date after the commit is
  15 August 2024.
\<close>

definition ordinaryPlan :: FinancingPlan where
  "ordinaryPlan = \<lparr>fp_monthlyPayment = Fin (29349222328093003 / 100000000000000),
     fp_totalCost = Fin (226095333968558 / 10000000000),
     fp_interestRate = Fin (13 / 200), fp_loanAmount = Fin 15000, fp_loanTerm = 5\<rparr>"

definition ordinaryAlignment :: SavedAlignment where
  "ordinaryAlignment = \<lparr>sa_id = ''p1'', sa_vehicle = exampleVehicle\<lparr>price := Fin 20000\<rparr>,
     sa_userInput = exampleInput, sa_plan = FinancingP ordinaryPlan,
     sa_savedAt = ''2024-07-15T10:00:00.000Z''\<rparr>"

definition ordinaryUser :: UserData where
  "ordinaryUser = \<lparr>userInput = exampleInput, savedAlignments = [ordinaryAlignment],
     chatbotConversations = [], activeLoans = []\<rparr>"

definition ordinaryLoan :: ActiveLoan where
  "ordinaryLoan = newLoan exampleDate ordinaryAlignment 0"

definition nextDueDate :: Date where
  "nextDueDate = \<lparr>getFullYear = 2024, getMonth = 7, getDate = 15\<rparr>"

text \<open>A loan started on 31 January 2024, due on day 31, over four months.\<close>

definition endOfMonthLoan :: ActiveLoan where
  "endOfMonthLoan = \<lparr>loan_id = ''c3'', vehicleModel = ''Camry'', imageUrl = ''Camry.jpg'',
     monthlyPayment = Fin 500, totalCost = Fin 2000,
     loanStartDate = \<lparr>getFullYear = 2024, getMonth = 0, getDate = 31\<rparr>,
     loanTermInMonths = 4, paymentDayOfMonth = 31, color = ''#9b59b6'',
     amountLeft = Fin 2000, planType = Financing, lastPaymentMonth = None,
     initialLoanAmount = Some (Fin 2000)\<rparr>"

definition newYear2024 :: Date where
  "newYear2024 = \<lparr>getFullYear = 2024, getMonth = 0, getDate = 1\<rparr>"

section \<open>The payment ledger: properties\<close>

text \<open>
  Claim C1, as the spec states it, asks that a payment larger than the balance be
  refused and leave the loan unchanged. \<^verbatim>\<open>handleMakePayment\<close> has no refusal:
  on the financing loan of the example, with a balance of 100, a payment of 150
  is accepted and sets the balance to 0.
\<close>

theorem overpayment_not_rejected:
  "planType exampleLoan = Financing \<and> amountLeft exampleLoan = Fin 100 \<and>
   jgt (Fin 150) (amountLeft exampleLoan) \<and>
   amountLeft (makePaymentOnLoan exampleDate (loan_id exampleLoan) (Fin 150) exampleLoan) = Fin 0 \<and>
   makePaymentOnLoan exampleDate (loan_id exampleLoan) (Fin 150) exampleLoan \<noteq> exampleLoan"
proof -
  have "amountLeft (makePaymentOnLoan exampleDate (loan_id exampleLoan) (Fin 150) exampleLoan)
          = Fin 0"
    by (simp add: exampleLoan_def makePaymentOnLoan_def Math_max_def jsub_def)
  moreover have "amountLeft exampleLoan = Fin 100" by (simp add: exampleLoan_def)
  ultimately show ?thesis by (auto simp: jgt_def) (simp add: exampleLoan_def)
qed

text \<open>
  Claim C1, amended: a payment is never refused. On the financing loan with the
  given id, a payment \<open>a\<close> with \<open>0 < a \<le> amountLeft\<close> lowers the balance by
  \<open>a\<close>, a payment larger than the balance sets the balance to 0, and in both
  cases no other field of the loan changes. An amount \<open>\<le> 0\<close> is stopped by the
  payment form: \<^verbatim>\<open>handleSubmit\<close> submits nothing and the user data stay as they
  are.
\<close>

theorem payment_clamps_or_reduces:
  "planType l = Financing \<Longrightarrow> loan_id l = lid \<Longrightarrow> amountLeft l = Fin L \<Longrightarrow>
   (0 < a \<and> a \<le> L \<longrightarrow>
      makePaymentOnLoan now lid (Fin a) l = l\<lparr>amountLeft := Fin (L - a)\<rparr>) \<and>
   (L < a \<longrightarrow> makePaymentOnLoan now lid (Fin a) l = l\<lparr>amountLeft := Fin 0\<rparr>) \<and>
   (a \<le> 0 \<longrightarrow> handleSubmit now (Some l) (Fin a) prev = prev)"
  by (simp add: makePaymentOnLoan_def Math_max_def jsub_def handleSubmit_def)

theorem payment_clamps_or_reduces_witness:
  "planType exampleLoan = Financing \<and> loan_id exampleLoan = ''a1'' \<and>
   amountLeft exampleLoan = Fin 100 \<and>
   makePaymentOnLoan exampleDate ''a1'' (Fin 40) exampleLoan
     = exampleLoan\<lparr>amountLeft := Fin 60\<rparr> \<and>
   makePaymentOnLoan exampleDate ''a1'' (Fin 150) exampleLoan
     = exampleLoan\<lparr>amountLeft := Fin 0\<rparr> \<and>
   handleSubmit exampleDate (Some exampleLoan) (Fin (- 5)) (Some exampleUser) = Some exampleUser"
proof -
  have h: "planType exampleLoan = Financing" "loan_id exampleLoan = ''a1''"
    "amountLeft exampleLoan = Fin 100"
    by (simp_all add: exampleLoan_def)
  show ?thesis
    using h payment_clamps_or_reduces [OF h, of 40 exampleDate "Some exampleUser"]
      payment_clamps_or_reduces [OF h, of 150 exampleDate "Some exampleUser"]
      payment_clamps_or_reduces [OF h, of "- 5" exampleDate "Some exampleUser"]
    by simp
qed

text \<open>
  Claim C9: the balance never becomes negative. For every loan whose balance is
  \<open>\<ge> 0\<close> and every payment amount \<open>a\<close>, negative amounts and amounts above the
  balance included, the loan returned by the payment has a balance \<open>\<ge> 0\<close>.
  The amount ranges over the finite numbers.
\<close>

theorem payment_keeps_balance_nonneg:
  "jle (Fin 0) (amountLeft l) \<Longrightarrow>
   jle (Fin 0) (amountLeft (makePaymentOnLoan now lid (Fin a) l))"
  by (cases "amountLeft l") (simp_all add: makePaymentOnLoan_def Math_max_def jsub_def)

theorem payment_keeps_balance_nonneg_witness:
  "jle (Fin 0) (amountLeft exampleLoan) \<and> planType exampleLoan = Financing \<and>
   jle (Fin 0) (amountLeft (makePaymentOnLoan exampleDate ''a1'' (Fin 150) exampleLoan)) \<and>
   jle (Fin 0) (amountLeft (makePaymentOnLoan exampleDate ''a1'' (Fin (- 30)) exampleLoan))"
proof -
  have h: "jle (Fin 0) (amountLeft exampleLoan)" by (simp add: exampleLoan_def)
  have f: "planType exampleLoan = Financing" by (simp add: exampleLoan_def)
  show ?thesis
    using h f payment_keeps_balance_nonneg [OF h, of exampleDate "''a1''" 150]
      payment_keeps_balance_nonneg [OF h, of exampleDate "''a1''" "- 30"]
    by simp
qed

text \<open>
  Claim C10: the frame of a payment. \<^verbatim>\<open>handleMakePayment\<close> returns the user
  input, the saved plans and the conversations unchanged, keeps the number and
  order of the loans, returns every loan with another id unchanged, and changes
  at most the balance of a financing loan and at most the payment marker of a
  lease.
\<close>

theorem payment_frame:
  "handleMakePayment now lid amount (Some u) = Some u' \<Longrightarrow>
   userInput u' = userInput u \<and> savedAlignments u' = savedAlignments u \<and>
   chatbotConversations u' = chatbotConversations u \<and>
   length (activeLoans u') = length (activeLoans u) \<and>
   (\<forall>i < length (activeLoans u).
      (loan_id (activeLoans u ! i) \<noteq> lid \<longrightarrow> activeLoans u' ! i = activeLoans u ! i) \<and>
      (planType (activeLoans u ! i) = Financing \<longrightarrow>
         activeLoans u' ! i
           = (activeLoans u ! i)\<lparr>amountLeft := amountLeft (activeLoans u' ! i)\<rparr>) \<and>
      (planType (activeLoans u ! i) = Leasing \<longrightarrow>
         activeLoans u' ! i
           = (activeLoans u ! i)\<lparr>lastPaymentMonth := lastPaymentMonth (activeLoans u' ! i)\<rparr>))"
  by (auto simp: handleMakePayment_def makePaymentOnLoan_def)

theorem payment_frame_witness:
  "handleMakePayment exampleDate ''a1'' (Fin 40) (Some exampleUser)
     = Some (exampleUser\<lparr>activeLoans := [exampleLoan\<lparr>amountLeft := Fin 60\<rparr>, exampleLease]\<rparr>) \<and>
   loan_id (activeLoans exampleUser ! 1) \<noteq> ''a1'' \<and>
   planType (activeLoans exampleUser ! 0) = Financing \<and>
   planType (activeLoans exampleUser ! 1) = Leasing \<and>
   savedAlignments (exampleUser\<lparr>activeLoans := [exampleLoan\<lparr>amountLeft := Fin 60\<rparr>, exampleLease]\<rparr>)
     = savedAlignments exampleUser \<and>
   length (activeLoans (exampleUser\<lparr>activeLoans := [exampleLoan\<lparr>amountLeft := Fin 60\<rparr>, exampleLease]\<rparr>))
     = length (activeLoans exampleUser)"
proof -
  let ?u' = "exampleUser\<lparr>activeLoans := [exampleLoan\<lparr>amountLeft := Fin 60\<rparr>, exampleLease]\<rparr>"
  have h: "handleMakePayment exampleDate ''a1'' (Fin 40) (Some exampleUser) = Some ?u'"
    by (simp add: handleMakePayment_def makePaymentOnLoan_def exampleUser_def exampleLoan_def
          exampleLease_def Math_max_def jsub_def)
  have ids: "loan_id (activeLoans exampleUser ! 1) \<noteq> ''a1''"
    "planType (activeLoans exampleUser ! 0) = Financing"
    "planType (activeLoans exampleUser ! 1) = Leasing"
    by (simp_all add: exampleUser_def exampleLoan_def exampleLease_def)
  from payment_frame [OF h] have "savedAlignments ?u' = savedAlignments exampleUser"
    and "length (activeLoans ?u') = length (activeLoans exampleUser)"
    by blast+
  with h ids show ?thesis by blast
qed



section \<open>The commit engine: properties\<close>

lemma newLoan_id: "loan_id (newLoan now a n) = sa_id a"
  by (cases "sa_plan a") (simp_all add: newLoan_def)

lemma find_id: "find (\<lambda>a. sa_id a = aid) xs = Some a \<Longrightarrow> sa_id a = aid"
  by (induction xs) (auto split: if_splits)

lemma commit_existing:
  assumes "find (\<lambda>a. sa_id a = aid) (savedAlignments u) = Some a"
    and "list_ex (\<lambda>loan. loan_id loan = aid) (activeLoans u)"
  shows "handleCommitAlignment now aid (Some u)
           = (Some ''This plan has already been committed.'', Some u)"
proof -
  have "sa_id a = aid" using assms(1) by (rule find_id)
  with assms show ?thesis by (simp add: handleCommitAlignment_def)
qed

lemma commit_fresh:
  assumes "find (\<lambda>a. sa_id a = aid) (savedAlignments u) = Some a"
    and "\<not> list_ex (\<lambda>loan. loan_id loan = aid) (activeLoans u)"
  shows "handleCommitAlignment now aid (Some u)
           = (None, Some (u\<lparr>activeLoans :=
                               activeLoans u @ [newLoan now a (length (activeLoans u))]\<rparr>))"
proof -
  have "sa_id a = aid" using assms(1) by (rule find_id)
  with assms show ?thesis by (simp add: handleCommitAlignment_def)
qed

lemma commit_twice:
  assumes "find (\<lambda>a. sa_id a = aid) (savedAlignments u) = Some a"
  shows "handleCommitAlignment now2 aid (snd (handleCommitAlignment now1 aid (Some u)))
           = (Some ''This plan has already been committed.'',
              snd (handleCommitAlignment now1 aid (Some u)))"
proof (cases "list_ex (\<lambda>loan. loan_id loan = aid) (activeLoans u)")
  case True
  with assms show ?thesis by (simp add: commit_existing)
next
  case False
  have idA: "sa_id a = aid" using assms by (rule find_id)
  let ?u' = "u\<lparr>activeLoans := activeLoans u @ [newLoan now1 a (length (activeLoans u))]\<rparr>"
  have first: "handleCommitAlignment now1 aid (Some u) = (None, Some ?u')"
    using assms False by (rule commit_fresh)
  have "find (\<lambda>a. sa_id a = aid) (savedAlignments ?u') = Some a"
    using assms by simp
  moreover have "list_ex (\<lambda>loan. loan_id loan = aid) (activeLoans ?u')"
    by (simp add: newLoan_id idA)
  ultimately have "handleCommitAlignment now2 aid (Some ?u')
      = (Some ''This plan has already been committed.'', Some ?u')"
    by (rule commit_existing)
  with first show ?thesis by simp
qed

text \<open>
  Claim C3: committing is idempotent. Whatever the state, committing the same
  plan identity a second time (at any later moment \<open>now2\<close>) returns the state
  that the first commit returned. When the plan is among the saved plans, the
  second commit gives the warning that the plan has already been committed; and
  a commit of a plan whose identity is already among the active loans gives that
  warning and returns the user data as they were.
\<close>

theorem commit_idempotent:
  "snd (handleCommitAlignment now2 aid (snd (handleCommitAlignment now1 aid prev)))
     = snd (handleCommitAlignment now1 aid prev) \<and>
   (prev = Some u \<and> find (\<lambda>a. sa_id a = aid) (savedAlignments u) = Some a \<longrightarrow>
      fst (handleCommitAlignment now2 aid (snd (handleCommitAlignment now1 aid prev)))
        = Some ''This plan has already been committed.'') \<and>
   (prev = Some u \<and> find (\<lambda>a. sa_id a = aid) (savedAlignments u) = Some a \<and>
    list_ex (\<lambda>loan. loan_id loan = aid) (activeLoans u) \<longrightarrow>
      handleCommitAlignment now2 aid prev
        = (Some ''This plan has already been committed.'', prev))"
proof (intro conjI impI)
  show "snd (handleCommitAlignment now2 aid (snd (handleCommitAlignment now1 aid prev)))
          = snd (handleCommitAlignment now1 aid prev)"
  proof (cases prev)
    case None
    then show ?thesis by (simp add: handleCommitAlignment_def)
  next
    case (Some v)
    show ?thesis
    proof (cases "find (\<lambda>a. sa_id a = aid) (savedAlignments v)")
      case None
      with Some show ?thesis by (simp add: handleCommitAlignment_def)
    next
      case (Some b)
      then show ?thesis using \<open>prev = Some v\<close> by (simp add: commit_twice)
    qed
  qed
next
  assume "prev = Some u \<and> find (\<lambda>a. sa_id a = aid) (savedAlignments u) = Some a"
  then show "fst (handleCommitAlignment now2 aid (snd (handleCommitAlignment now1 aid prev)))
               = Some ''This plan has already been committed.''"
    by (simp add: commit_twice)
next
  assume "prev = Some u \<and> find (\<lambda>a. sa_id a = aid) (savedAlignments u) = Some a \<and>
          list_ex (\<lambda>loan. loan_id loan = aid) (activeLoans u)"
  then show "handleCommitAlignment now2 aid prev
               = (Some ''This plan has already been committed.'', prev)"
    by (simp add: commit_existing)
qed

theorem commit_idempotent_witness:
  "find (\<lambda>a. sa_id a = ''a1'') (savedAlignments freshUser) = Some exampleAlignment \<and>
   fst (handleCommitAlignment exampleDate ''a1'' (Some freshUser)) = None \<and>
   snd (handleCommitAlignment exampleDate ''a1'' (Some freshUser)) \<noteq> Some freshUser \<and>
   handleCommitAlignment laterDate ''a1''
       (snd (handleCommitAlignment exampleDate ''a1'' (Some freshUser)))
     = (Some ''This plan has already been committed.'',
        snd (handleCommitAlignment exampleDate ''a1'' (Some freshUser))) \<and>
   find (\<lambda>a. sa_id a = ''a1'') (savedAlignments exampleUser) = Some exampleAlignment \<and>
   list_ex (\<lambda>loan. loan_id loan = ''a1'') (activeLoans exampleUser) \<and>
   handleCommitAlignment laterDate ''a1'' (Some exampleUser)
     = (Some ''This plan has already been committed.'', Some exampleUser)"
proof -
  have f1: "find (\<lambda>a. sa_id a = ''a1'') (savedAlignments freshUser) = Some exampleAlignment"
    by (simp add: freshUser_def exampleAlignment_def)
  have f2: "find (\<lambda>a. sa_id a = ''a1'') (savedAlignments exampleUser) = Some exampleAlignment"
    by (simp add: exampleUser_def exampleAlignment_def)
  have ex: "list_ex (\<lambda>loan. loan_id loan = ''a1'') (activeLoans exampleUser)"
    by (simp add: exampleUser_def exampleLoan_def)
  have first: "handleCommitAlignment exampleDate ''a1'' (Some freshUser)
      = (None, Some (freshUser\<lparr>activeLoans := [newLoan exampleDate exampleAlignment 0]\<rparr>))"
    by (simp add: handleCommitAlignment_def freshUser_def exampleAlignment_def)
  have changed: "snd (handleCommitAlignment exampleDate ''a1'' (Some freshUser)) \<noteq> Some freshUser"
    unfolding first by (simp add: freshUser_def)
  show ?thesis
    using f1 f2 ex changed
      commit_idempotent [of laterDate "''a1''" exampleDate "Some freshUser" freshUser
        exampleAlignment]
      commit_idempotent [of laterDate "''a1''" exampleDate "Some exampleUser" exampleUser
        exampleAlignment]
    by (simp add: first prod_eq_iff)
qed

text \<open>
  A financing plan with a loan amount \<open>L > 0\<close> and a monthly payment
  \<open>M > 0\<close>, committed at \<open>now\<close>, gives a loan that is on track at
  \<open>now\<close>: nothing has been paid, one payment is due, and the evaluator asks
  for one payment less than are due.
\<close>

lemma on_track_at_commit:
  assumes "sa_plan a = FinancingP plan"
    and "fp_loanAmount plan = Fin L" "0 < L"
    and "fp_monthlyPayment plan = Fin M" "0 < M"
  shows "getOnTrackStatus now (newLoan now a n)"
  using assms by (simp add: getOnTrackStatus_def newLoan_def truthy_def jsub_def jge_def)

text \<open>
  Claim C6 asks that a financing loan be on track at its commit and stay on
  track when one full monthly payment is made for each elapsed month. The
  ordinary plan of the example has the monthly payment 293.4922...; committed
  on 15 July 2024, its loan is on track on that day. On 15 August 2024 the
  monthly payment is submitted through the payment form, which floors it to
  293.49 before it reaches the ledger: the balance goes from 15000 to 14706.51,
  the evaluator estimates 293.49 / 293.4922... = 0.99999... payments made where
  it asks for 1, and the loan is not on track on the day of its on-time payment.
\<close>

theorem on_time_form_payment_flagged:
  "handleCommitAlignment exampleDate ''p1'' (Some ordinaryUser)
     = (None, Some (ordinaryUser\<lparr>activeLoans := [ordinaryLoan]\<rparr>)) \<and>
   monthlyPayment ordinaryLoan = Fin (29349222328093003 / 100000000000000) \<and>
   amountLeft ordinaryLoan = Fin 15000 \<and>
   getOnTrackStatus exampleDate ordinaryLoan \<and>
   floorToCent (monthlyPayment ordinaryLoan) = Fin (29349 / 100) \<and>
   handleSubmit nextDueDate (Some ordinaryLoan) (monthlyPayment ordinaryLoan)
       (Some (ordinaryUser\<lparr>activeLoans := [ordinaryLoan]\<rparr>))
     = Some (ordinaryUser\<lparr>activeLoans := [ordinaryLoan\<lparr>amountLeft := Fin (1470651 / 100)\<rparr>]\<rparr>) \<and>
   \<not> getOnTrackStatus nextDueDate (ordinaryLoan\<lparr>amountLeft := Fin (1470651 / 100)\<rparr>)"
proof -
  have commit: "handleCommitAlignment exampleDate ''p1'' (Some ordinaryUser)
                  = (None, Some (ordinaryUser\<lparr>activeLoans := [ordinaryLoan]\<rparr>))"
    by (simp add: handleCommitAlignment_def ordinaryUser_def ordinaryAlignment_def
          ordinaryLoan_def)
  have fields: "monthlyPayment ordinaryLoan = Fin (29349222328093003 / 100000000000000)"
    "amountLeft ordinaryLoan = Fin 15000" "initialLoanAmount ordinaryLoan = Some (Fin 15000)"
    "planType ordinaryLoan = Financing" "loanStartDate ordinaryLoan = exampleDate"
    "paymentDayOfMonth ordinaryLoan = 15"
    by (simp_all add: ordinaryLoan_def newLoan_def ordinaryAlignment_def ordinaryPlan_def
          exampleDate_def)
  have atCommit: "getOnTrackStatus exampleDate ordinaryLoan"
    by (simp add: getOnTrackStatus_def fields exampleDate_def truthy_def jsub_def jge_def)
  have floored: "floorToCent (monthlyPayment ordinaryLoan) = Fin (29349 / 100)"
    by (simp add: floorToCent_def fields floor_eq_iff)
  have paid: "makePaymentOnLoan nextDueDate (loan_id ordinaryLoan) (Fin (29349 / 100)) ordinaryLoan
               = ordinaryLoan\<lparr>amountLeft := Fin (1470651 / 100)\<rparr>"
    by (simp add: makePaymentOnLoan_def fields Math_max_def jsub_def)
  have submit: "handleSubmit nextDueDate (Some ordinaryLoan) (monthlyPayment ordinaryLoan)
                    (Some (ordinaryUser\<lparr>activeLoans := [ordinaryLoan]\<rparr>))
                  = Some (ordinaryUser\<lparr>activeLoans :=
                            [ordinaryLoan\<lparr>amountLeft := Fin (1470651 / 100)\<rparr>]\<rparr>)"
    unfolding handleSubmit_def floored using paid
    by (simp add: handleMakePayment_def fields)
  have flagged:
    "\<not> getOnTrackStatus nextDueDate (ordinaryLoan\<lparr>amountLeft := Fin (1470651 / 100)\<rparr>)"
    by (simp add: getOnTrackStatus_def fields exampleDate_def nextDueDate_def truthy_def
          jsub_def jge_def)
  from commit fields(1,2) atCommit floored submit flagged show ?thesis by blast
qed

section \<open>The calculators: properties\<close>

lemma Math_pow_Fin: "Math_pow (Fin b) n = Fin (b ^ n)"
  by (induction n) simp_all

text \<open>
  At a rate of zero \<^verbatim>\<open>calculateMonthlyPayment\<close> takes its own branch and
  returns the principal divided by the number of payments.
\<close>

lemma calculateMonthlyPayment_zero_rate:
  "0 < P \<Longrightarrow> 0 < t \<Longrightarrow>
   calculateMonthlyPayment (Fin P) (Fin 0) t = Fin (P / (of_nat t * 12))"
  by (simp add: calculateMonthlyPayment_def jeq_def Let_def)

text \<open>
  \<^verbatim>\<open>financingPlan\<close> of the financing page has no such branch: at a rate of
  zero and a positive loan amount the annuity formula divides zero by zero.
\<close>

lemma financingPlan_zero_rate:
  "downPayment ui = Fin d \<Longrightarrow> d < p \<Longrightarrow>
   fp_monthlyPayment (financingPlan (Fin p) ui (Fin 0)) = NaN"
  by (simp add: financingPlan_def Let_def jsub_def jgt_def Math_pow_Fin)

text \<open>
  Claim C2 asks that a rate of zero give exactly \<open>P / (t * 12)\<close>, a finite
  number, in the stand-alone function and in the plan of the financing page.
  For a price of 12000, no down payment and one year, the stand-alone function
  returns 1000, and the plan of the financing page has the monthly payment
  \<open>NaN\<close>.
\<close>

theorem zero_rate_financing_page_nan:
  "calculateMonthlyPayment (Fin 12000) (Fin 0) 1 = Fin 1000 \<and>
   fp_monthlyPayment
     (financingPlan (Fin 12000) (exampleInput\<lparr>downPayment := Fin 0, loanTerm := 1\<rparr>) (Fin 0))
     = NaN"
  by (simp add: calculateMonthlyPayment_def jeq_def financingPlan_def Let_def jsub_def jgt_def
        Math_pow_Fin exampleInput_def)

lemma annuity_nonneg:
  fixes P r :: rat
  assumes "0 \<le> P" "0 < r" "0 < n"
  shows "(1 + r / 12) ^ n - 1 \<noteq> 0"
    and "0 \<le> P * (r / 12 * (1 + r / 12) ^ n) / ((1 + r / 12) ^ n - 1)"
proof -
  have "1 < 1 + r / 12" using assms(2) by simp
  then have gt: "1 < (1 + r / 12) ^ n" using assms(3) by simp
  then show "(1 + r / 12) ^ n - 1 \<noteq> 0" by simp
  have "0 \<le> P * (r / 12 * (1 + r / 12) ^ n)" using assms(1,2) gt by simp
  moreover have "0 < (1 + r / 12) ^ n - 1" using gt by simp
  ultimately show "0 \<le> P * (r / 12 * (1 + r / 12) ^ n) / ((1 + r / 12) ^ n - 1)"
    by (simp add: divide_nonneg_pos)
qed

lemma financingPlan_nonneg:
  assumes dp: "downPayment ui = Fin d" and "0 \<le> d" "0 < r" "0 < loanTerm ui"
  shows "jle (Fin 0) (fp_monthlyPayment (financingPlan (Fin p) ui (Fin r)))"
    and "jle (Fin 0) (fp_totalCost (financingPlan (Fin p) ui (Fin r)))"
proof -
  let ?n = "loanTerm ui * 12"
  let ?m = "(p - d) * (r / 12 * (1 + r / 12) ^ ?n) / ((1 + r / 12) ^ ?n - 1)"
  have n: "0 < ?n" using assms(4) by simp
  have nz: "(1 + r / 12) ^ ?n - 1 \<noteq> 0"
    using annuity_nonneg(1) [of 0 r ?n] assms(3) n by simp
  have m0: "0 \<le> (if d < p then ?m else 0)"
    using annuity_nonneg(2) [of "p - d" r ?n] assms(3) n by simp
  have mp: "fp_monthlyPayment (financingPlan (Fin p) ui (Fin r))
              = Fin (if d < p then ?m else 0)"
    using dp nz by (simp add: financingPlan_def Let_def jsub_def jgt_def Math_pow_Fin)
  show "jle (Fin 0) (fp_monthlyPayment (financingPlan (Fin p) ui (Fin r)))"
    unfolding mp using m0 by simp
  have tc: "fp_totalCost (financingPlan (Fin p) ui (Fin r))
              = Fin ((if d < p then ?m else 0) * of_nat ?n + d)"
    using dp nz by (simp add: financingPlan_def Let_def jsub_def jgt_def Math_pow_Fin)
  have "0 \<le> (if d < p then ?m else 0) * of_nat ?n" using m0 by (simp del: of_nat_mult)
  then show "jle (Fin 0) (fp_totalCost (financingPlan (Fin p) ui (Fin r)))"
    unfolding tc using assms(2) by (simp del: of_nat_mult)
qed

lemma financingPlan_no_loan:
  assumes dp: "downPayment ui = Fin d" and "p \<le> d"
  shows "fp_monthlyPayment (financingPlan (Fin p) ui (Fin r)) = Fin 0"
    and "fp_totalCost (financingPlan (Fin p) ui (Fin r)) = Fin d"
  using assms by (simp_all add: financingPlan_def Let_def jsub_def jgt_def)

lemma simpleFinancingPlan_nonneg:
  assumes "0 \<le> d" "0 \<le> r" "0 < t"
  shows "jle (Fin 0) (sp_monthlyPayment (simpleFinancingPlan (Fin p) (Fin d) (Fin r) t))"
    and "jle (Fin 0) (sp_totalCost (simpleFinancingPlan (Fin p) (Fin d) (Fin r) t))"
proof -
  let ?n = "t * 12"
  let ?m = "if p - d \<le> 0 then 0
            else if r = 0 then (p - d) / of_nat ?n
            else (p - d) * (r / 12 * (1 + r / 12) ^ ?n) / ((1 + r / 12) ^ ?n - 1)"
  have n: "0 < ?n" using assms(3) by simp
  have nz: "r \<noteq> 0 \<Longrightarrow> (1 + r / 12) ^ ?n - 1 \<noteq> 0"
    using annuity_nonneg(1) [of 0 r ?n] assms(2) n by simp
  have a0: "r \<noteq> 0 \<Longrightarrow> \<not> p - d \<le> 0 \<Longrightarrow>
             0 \<le> (p - d) * (r / 12 * (1 + r / 12) ^ ?n) / ((1 + r / 12) ^ ?n - 1)"
    using annuity_nonneg(2) [of "p - d" r ?n] assms(2) n by simp
  have m0: "0 \<le> ?m" using a0 by simp
  have mp: "calculateMonthlyPayment (Fin (p - d)) (Fin r) t = Fin ?m"
    using nz assms(3)
    by (simp add: calculateMonthlyPayment_def Let_def jsub_def jeq_def Math_pow_Fin)
  show "jle (Fin 0) (sp_monthlyPayment (simpleFinancingPlan (Fin p) (Fin d) (Fin r) t))"
    using m0 by (simp add: simpleFinancingPlan_def Let_def jsub_def mp del: of_nat_mult)
  have "0 \<le> ?m * of_nat ?n" using m0 by (simp del: of_nat_mult)
  then have "0 \<le> ?m * of_nat ?n + d" using assms(1) by (simp del: of_nat_mult)
  then show "jle (Fin 0) (sp_totalCost (simpleFinancingPlan (Fin p) (Fin d) (Fin r) t))"
    by (simp add: simpleFinancingPlan_def Let_def jsub_def mp del: of_nat_mult)
qed

lemma simpleFinancingPlan_no_loan:
  assumes "p \<le> d"
  shows "sp_monthlyPayment (simpleFinancingPlan (Fin p) (Fin d) (Fin r) t) = Fin 0"
    and "sp_totalCost (simpleFinancingPlan (Fin p) (Fin d) (Fin r) t) = Fin d"
  using assms by (simp_all add: simpleFinancingPlan_def calculateMonthlyPayment_def Let_def jsub_def)

lemma leasingPlan_fields:
  assumes dp: "downPayment ui = Fin d"
  shows "lp_residualValue (leasingPlan (Fin p) ui (Fin r)) = Fin (p * (55 / 100))"
    and "lp_monthlyPayment (leasingPlan (Fin p) ui (Fin r))
           = Fin ((p - d - p * (55 / 100)) / 36 + (p - d + p * (55 / 100)) * (r / 2400))"
    and "lp_dueAtSigning (leasingPlan (Fin p) ui (Fin r))
           = Fin (d + ((p - d - p * (55 / 100)) / 36 + (p - d + p * (55 / 100)) * (r / 2400)))"
  using dp by (simp_all add: leasingPlan_def Let_def jsub_def)

lemma leasingPlan_nonneg:
  assumes dp: "downPayment ui = Fin d" and "0 \<le> p" "0 \<le> d" "0 \<le> r" "r \<le> 1"
  shows "jle (Fin 0) (lp_residualValue (leasingPlan (Fin p) ui (Fin r)))"
    and "jle (Fin 0) (lp_dueAtSigning (leasingPlan (Fin p) ui (Fin r)))"
    and "jle (lp_residualValue (leasingPlan (Fin p) ui (Fin r))) (jsub (Fin p) (Fin d)) \<Longrightarrow>
         jle (Fin 0) (lp_monthlyPayment (leasingPlan (Fin p) ui (Fin r)))"
proof -
  note f = leasingPlan_fields [OF dp, of p r]
  show "jle (Fin 0) (lp_residualValue (leasingPlan (Fin p) ui (Fin r)))"
    unfolding f using assms(2) by simp
  have dr: "d * r \<le> d" using assms(3,5) by (simp add: mult_left_le)
  have pr: "0 \<le> p * r" using assms(2,4) by simp
  have "d * r / 2400 \<le> d / 2400" using dr by (simp add: divide_right_mono)
  also have "\<dots> \<le> 35 * d / 36" using assms(3) by simp
  finally have a: "0 \<le> 35 * d / 36 - d * r / 2400" by simp
  have b: "0 \<le> p / 80 + 155 * (p * r) / 240000" using pr assms(2) by simp
  have "d + ((p - d - p * (55 / 100)) / 36 + (p - d + p * (55 / 100)) * (r / 2400))
          = (35 * d / 36 - d * r / 2400) + (p / 80 + 155 * (p * r) / 240000)"
    by (simp add: field_simps)
  also have "\<dots> \<ge> 0" using a b by simp
  finally show "jle (Fin 0) (lp_dueAtSigning (leasingPlan (Fin p) ui (Fin r)))"
    unfolding f by simp
  assume "jle (lp_residualValue (leasingPlan (Fin p) ui (Fin r))) (jsub (Fin p) (Fin d))"
  then have cap: "p * (55 / 100) \<le> p - d" unfolding f by (simp add: jsub_def)
  then have dep: "0 \<le> (p - d - p * (55 / 100)) / 36" by simp
  have "0 \<le> p - d + p * (55 / 100)" using cap assms(2) by simp
  then have fee: "0 \<le> (p - d + p * (55 / 100)) * (r / 2400)" using assms(4) by simp
  show "jle (Fin 0) (lp_monthlyPayment (leasingPlan (Fin p) ui (Fin r)))"
    unfolding f using dep fee by simp
qed

text \<open>
  Claim C8, as the spec states it, asks for a loan amount clamped to \<open>\<ge> 0\<close>
  and for non-negative currency fields for every price, down payment and rate,
  also when the down payment exceeds the price. The loan amount is the plain
  difference: for a price of 10000 and a down payment of 12000 the financing
  page and the recommendation both give -2000, and the monthly lease payment is
  negative as well. At a rate of zero the monthly payment of the financing page
  is \<open>NaN\<close>, which is not \<open>\<ge> 0\<close> either.
\<close>

theorem loan_amount_not_clamped:
  "fp_loanAmount
     (financingPlan (Fin 10000) (exampleInput\<lparr>downPayment := Fin 12000\<rparr>) (Fin (13 / 200)))
     = Fin (- 2000) \<and>
   \<not> jle (Fin 0) (fp_loanAmount
        (financingPlan (Fin 10000) (exampleInput\<lparr>downPayment := Fin 12000\<rparr>) (Fin (13 / 200)))) \<and>
   sp_loanAmount (simpleFinancingPlan (Fin 10000) (Fin 12000) (Fin (13 / 200)) 5)
     = Fin (- 2000) \<and>
   \<not> jle (Fin 0) (lp_monthlyPayment
        (leasingPlan (Fin 10000) (exampleInput\<lparr>downPayment := Fin 12000\<rparr>) (Fin (13 / 200)))) \<and>
   \<not> jle (Fin 0) (fp_monthlyPayment (financingPlan (Fin 10000) exampleInput (Fin 0)))"
  by (simp add: financingPlan_def simpleFinancingPlan_def leasingPlan_def Let_def jsub_def
        jgt_def Math_pow_Fin exampleInput_def)

text \<open>
  Claim C8, amended. For a finite price \<open>p \<ge> 0\<close>, down payment \<open>d \<ge> 0\<close>
  and rate \<open>r\<close>:
  \<^item> the loan amount of the financing plan and of the recommendation is
    \<open>p - d\<close>, with no clamp: it is negative when the down payment exceeds the
    price;
  \<^item> when the down payment reaches or exceeds the price, the monthly payment of
    both is 0 and the total cost is the down payment, whatever the rate and the
    term;
  \<^item> for a rate from 0.001 to 1 and a term from 1 to 100 years, the monthly
    payment and the total cost of the financing plan are non-negative, for every
    down payment; the same holds for the recommendation, also at the rate 0;
  \<^item> the residual value of the leasing plan is non-negative, and for a rate
    from 0 to 1 and a price of at most \<open>10 ^ 15\<close> the amount due at signing
    is non-negative, for every down payment; the monthly lease payment is then
    non-negative when the residual value that the plan computes does not exceed
    the capitalized cost \<open>p - d\<close> that it computes (in exact arithmetic: a
    down payment of at most 45 percent of the price).

  The bounds on the rate and the term keep the power of the annuity formula
  finite and above 1 in double precision as well, and the bound on the price
  keeps the lease's sums finite; the condition on the lease payment is on the
  computed values, so that it does not turn on the rounding of \<open>0.55 p\<close>.
\<close>

theorem plan_amounts:
  assumes dp: "downPayment ui = Fin d" and p0: "0 \<le> p" and d0: "0 \<le> d"
  shows "fp_loanAmount (financingPlan (Fin p) ui (Fin r)) = Fin (p - d) \<and>
         sp_loanAmount (simpleFinancingPlan (Fin p) (Fin d) (Fin r) t) = Fin (p - d) \<and>
         (p \<le> d \<longrightarrow>
            fp_monthlyPayment (financingPlan (Fin p) ui (Fin r)) = Fin 0 \<and>
            fp_totalCost (financingPlan (Fin p) ui (Fin r)) = Fin d \<and>
            sp_monthlyPayment (simpleFinancingPlan (Fin p) (Fin d) (Fin r) t) = Fin 0 \<and>
            sp_totalCost (simpleFinancingPlan (Fin p) (Fin d) (Fin r) t) = Fin d) \<and>
         (1 / 1000 \<le> r \<and> r \<le> 1 \<and> 1 \<le> loanTerm ui \<and> loanTerm ui \<le> 100 \<longrightarrow>
            jle (Fin 0) (fp_monthlyPayment (financingPlan (Fin p) ui (Fin r))) \<and>
            jle (Fin 0) (fp_totalCost (financingPlan (Fin p) ui (Fin r)))) \<and>
         ((r = 0 \<or> 1 / 1000 \<le> r \<and> r \<le> 1) \<and> 1 \<le> t \<and> t \<le> 100 \<longrightarrow>
            jle (Fin 0) (sp_monthlyPayment (simpleFinancingPlan (Fin p) (Fin d) (Fin r) t)) \<and>
            jle (Fin 0) (sp_totalCost (simpleFinancingPlan (Fin p) (Fin d) (Fin r) t))) \<and>
         jle (Fin 0) (lp_residualValue (leasingPlan (Fin p) ui (Fin r))) \<and>
         (0 \<le> r \<and> r \<le> 1 \<and> p \<le> 1000000000000000 \<longrightarrow>
            jle (Fin 0) (lp_dueAtSigning (leasingPlan (Fin p) ui (Fin r))) \<and>
            (jle (lp_residualValue (leasingPlan (Fin p) ui (Fin r))) (jsub (Fin p) (Fin d)) \<longrightarrow>
               jle (Fin 0) (lp_monthlyPayment (leasingPlan (Fin p) ui (Fin r)))))"
proof -
  have la: "fp_loanAmount (financingPlan (Fin p) ui (Fin r)) = Fin (p - d)"
    using dp by (simp add: financingPlan_def Let_def jsub_def)
  have sa: "sp_loanAmount (simpleFinancingPlan (Fin p) (Fin d) (Fin r) t) = Fin (p - d)"
    by (simp add: simpleFinancingPlan_def Let_def jsub_def)
  have none: "p \<le> d \<longrightarrow>
            fp_monthlyPayment (financingPlan (Fin p) ui (Fin r)) = Fin 0 \<and>
            fp_totalCost (financingPlan (Fin p) ui (Fin r)) = Fin d \<and>
            sp_monthlyPayment (simpleFinancingPlan (Fin p) (Fin d) (Fin r) t) = Fin 0 \<and>
            sp_totalCost (simpleFinancingPlan (Fin p) (Fin d) (Fin r) t) = Fin d"
    using financingPlan_no_loan [OF dp, of p r] simpleFinancingPlan_no_loan [of p d r t]
    by blast
  have fin: "1 / 1000 \<le> r \<and> r \<le> 1 \<and> 1 \<le> loanTerm ui \<and> loanTerm ui \<le> 100 \<longrightarrow>
            jle (Fin 0) (fp_monthlyPayment (financingPlan (Fin p) ui (Fin r))) \<and>
            jle (Fin 0) (fp_totalCost (financingPlan (Fin p) ui (Fin r)))"
    using financingPlan_nonneg [OF dp d0, of r p] by simp
  have rec: "(r = 0 \<or> 1 / 1000 \<le> r \<and> r \<le> 1) \<and> 1 \<le> t \<and> t \<le> 100 \<longrightarrow>
            jle (Fin 0) (sp_monthlyPayment (simpleFinancingPlan (Fin p) (Fin d) (Fin r) t)) \<and>
            jle (Fin 0) (sp_totalCost (simpleFinancingPlan (Fin p) (Fin d) (Fin r) t))"
    using simpleFinancingPlan_nonneg [OF d0, of r t p] by auto
  have res: "jle (Fin 0) (lp_residualValue (leasingPlan (Fin p) ui (Fin r)))"
    using leasingPlan_fields(1) [OF dp, of p r] p0 by simp
  have lease: "0 \<le> r \<and> r \<le> 1 \<and> p \<le> 1000000000000000 \<longrightarrow>
            jle (Fin 0) (lp_dueAtSigning (leasingPlan (Fin p) ui (Fin r))) \<and>
            (jle (lp_residualValue (leasingPlan (Fin p) ui (Fin r))) (jsub (Fin p) (Fin d)) \<longrightarrow>
               jle (Fin 0) (lp_monthlyPayment (leasingPlan (Fin p) ui (Fin r))))"
    using leasingPlan_nonneg(2,3) [OF dp p0 d0, of r] by simp
  from la sa none fin rec res lease show ?thesis by blast
qed

theorem plan_amounts_witness:
  "downPayment exampleInput = Fin 5000 \<and> loanTerm exampleInput = 5 \<and>
   fp_loanAmount (financingPlan (Fin 32000) exampleInput (Fin (13 / 200))) = Fin 27000 \<and>
   jle (Fin 0) (fp_monthlyPayment (financingPlan (Fin 32000) exampleInput (Fin (13 / 200)))) \<and>
   jle (Fin 0) (fp_totalCost (financingPlan (Fin 32000) exampleInput (Fin (13 / 200)))) \<and>
   jle (Fin 0) (sp_monthlyPayment
                  (simpleFinancingPlan (Fin 32000) (Fin 5000) (Fin (13 / 200)) 5)) \<and>
   jle (lp_residualValue (leasingPlan (Fin 32000) exampleInput (Fin (13 / 200))))
       (jsub (Fin 32000) (Fin 5000)) \<and>
   jle (Fin 0) (lp_monthlyPayment (leasingPlan (Fin 32000) exampleInput (Fin (13 / 200)))) \<and>
   jle (Fin 0) (lp_dueAtSigning (leasingPlan (Fin 32000) exampleInput (Fin (13 / 200)))) \<and>
   fp_loanAmount
     (financingPlan (Fin 10000) (exampleInput\<lparr>downPayment := Fin 12000\<rparr>) (Fin (13 / 200)))
     = Fin (- 2000) \<and>
   fp_monthlyPayment
     (financingPlan (Fin 10000) (exampleInput\<lparr>downPayment := Fin 12000\<rparr>) (Fin (13 / 200)))
     = Fin 0 \<and>
   fp_totalCost
     (financingPlan (Fin 10000) (exampleInput\<lparr>downPayment := Fin 12000\<rparr>) (Fin (13 / 200)))
     = Fin 12000 \<and>
   jle (Fin 0) (lp_dueAtSigning
     (leasingPlan (Fin 10000) (exampleInput\<lparr>downPayment := Fin 12000\<rparr>) (Fin (13 / 200))))"
proof -
  have h: "downPayment exampleInput = Fin 5000" by (simp add: exampleInput_def)
  have t: "loanTerm exampleInput = 5" by (simp add: exampleInput_def)
  have h2: "downPayment (exampleInput\<lparr>downPayment := Fin 12000\<rparr>) = Fin 12000" by simp
  have cap: "jle (lp_residualValue (leasingPlan (Fin 32000) exampleInput (Fin (13 / 200))))
                 (jsub (Fin 32000) (Fin 5000))"
    by (simp add: leasingPlan_def Let_def jsub_def)
  have c: "(1::rat) / 1000 \<le> 13 / 200 \<and> (0::rat) \<le> 13 / 200 \<and> (13::rat) / 200 \<le> 1 \<and>
           (1::nat) \<le> 5 \<and> (5::nat) \<le> 100"
    "(10000::rat) \<le> 12000" "(32000::rat) - 5000 = 27000" "(10000::rat) - 12000 = - 2000"
    by simp_all
  have first: "fp_loanAmount (financingPlan (Fin 32000) exampleInput (Fin (13 / 200))) = Fin 27000 \<and>
     jle (Fin 0) (fp_monthlyPayment (financingPlan (Fin 32000) exampleInput (Fin (13 / 200)))) \<and>
     jle (Fin 0) (fp_totalCost (financingPlan (Fin 32000) exampleInput (Fin (13 / 200)))) \<and>
     jle (Fin 0) (sp_monthlyPayment
                    (simpleFinancingPlan (Fin 32000) (Fin 5000) (Fin (13 / 200)) 5)) \<and>
     jle (Fin 0) (lp_monthlyPayment (leasingPlan (Fin 32000) exampleInput (Fin (13 / 200)))) \<and>
     jle (Fin 0) (lp_dueAtSigning (leasingPlan (Fin 32000) exampleInput (Fin (13 / 200))))"
    using plan_amounts [OF h, of 32000 "13 / 200" 5] cap c t by simp
  have second: "fp_loanAmount
       (financingPlan (Fin 10000) (exampleInput\<lparr>downPayment := Fin 12000\<rparr>) (Fin (13 / 200)))
       = Fin (- 2000) \<and>
     fp_monthlyPayment
       (financingPlan (Fin 10000) (exampleInput\<lparr>downPayment := Fin 12000\<rparr>) (Fin (13 / 200)))
       = Fin 0 \<and>
     fp_totalCost
       (financingPlan (Fin 10000) (exampleInput\<lparr>downPayment := Fin 12000\<rparr>) (Fin (13 / 200)))
       = Fin 12000 \<and>
     jle (Fin 0) (lp_dueAtSigning
       (leasingPlan (Fin 10000) (exampleInput\<lparr>downPayment := Fin 12000\<rparr>) (Fin (13 / 200))))"
    using plan_amounts [OF h2, of 10000 "13 / 200" 5] c by simp
  from h t cap first second show ?thesis by blast
qed

section \<open>The payment scheduler: properties\<close>

lemma carryDay_in_month:
  "1 \<le> d \<Longrightarrow> d \<le> daysInMonth y m \<Longrightarrow>
   carryDay y m d = \<lparr>getFullYear = y, getMonth = m, getDate = d\<rparr>"
  by (subst carryDay.simps) simp

lemma carryDay_overflow:
  assumes "daysInMonth y m < d" and "d \<le> 31"
  shows "carryDay y m d =
           \<lparr>getFullYear = fst (nextMonth (y, m)), getMonth = snd (nextMonth (y, m)),
            getDate = d - daysInMonth y m\<rparr>"
proof -
  have lo: "28 \<le> daysInMonth y m" by (simp add: daysInMonth_def)
  have hi: "28 \<le> daysInMonth (fst (nextMonth (y, m))) (snd (nextMonth (y, m)))"
    by (simp add: daysInMonth_def)
  have "carryDay y m d =
          carryDay (fst (nextMonth (y, m))) (snd (nextMonth (y, m))) (d - daysInMonth y m)"
    using assms lo by (subst carryDay.simps) (simp add: Let_def)
  also have "\<dots> = \<lparr>getFullYear = fst (nextMonth (y, m)), getMonth = snd (nextMonth (y, m)),
                    getDate = d - daysInMonth y m\<rparr>"
    using assms lo hi by (intro carryDay_in_month) linarith+
  finally show ?thesis .
qed

text \<open>
  Claim C4, as the spec states it, asks that a payment day beyond the end of the
  target month be clamped to the last day of that month. The loan of the example
  starts on 31 January 2024 with payment day 31: its month index 3 aims at April
  2024, which has 30 days, and the due date is 1 May; the four due dates are
  31 January, 2 March, 31 March and 1 May.
\<close>

theorem due_date_not_clamped:
  "targetMonth endOfMonthLoan 3 = (2024, 3) \<and> daysInMonth 2024 3 = 30 \<and>
   paymentDayOfMonth endOfMonthLoan = 31 \<and>
   paymentDate endOfMonthLoan 3 = \<lparr>getFullYear = 2024, getMonth = 4, getDate = 1\<rparr> \<and>
   map date (allFuturePayments newYear2024 [endOfMonthLoan])
     = [\<lparr>getFullYear = 2024, getMonth = 0, getDate = 31\<rparr>,
        \<lparr>getFullYear = 2024, getMonth = 2, getDate = 2\<rparr>,
        \<lparr>getFullYear = 2024, getMonth = 2, getDate = 31\<rparr>,
        \<lparr>getFullYear = 2024, getMonth = 4, getDate = 1\<rparr>]"
proof -
  have "targetMonth endOfMonthLoan 3 = (2024, 3)"
    by (simp add: targetMonth_def endOfMonthLoan_def fullYear_def)
  moreover have "daysInMonth 2024 3 = 30" by (simp add: daysInMonth_def)
  moreover have "paymentDayOfMonth endOfMonthLoan = 31" by (simp add: endOfMonthLoan_def)
  moreover have "paymentDate endOfMonthLoan 3
                   = \<lparr>getFullYear = 2024, getMonth = 4, getDate = 1\<rparr>"
    by code_simp
  moreover have "map date (allFuturePayments newYear2024 [endOfMonthLoan])
     = [\<lparr>getFullYear = 2024, getMonth = 0, getDate = 31\<rparr>,
        \<lparr>getFullYear = 2024, getMonth = 2, getDate = 2\<rparr>,
        \<lparr>getFullYear = 2024, getMonth = 2, getDate = 31\<rparr>,
        \<lparr>getFullYear = 2024, getMonth = 4, getDate = 1\<rparr>]"
    by code_simp
  ultimately show ?thesis by blast
qed

text \<open>
  Claim C4, amended: one policy is applied to every due date, and it is to roll
  forward. For every loan and month index, a payment day from 1 up to the number
  of days of the target month gives that day of the target month; a payment day
  above the number of days of the target month (and at most 31) gives a due date
  in the month after the target month, on the day that is the payment day minus
  the number of days of the target month.
\<close>

theorem due_date_rolls_forward:
  "(1 \<le> paymentDayOfMonth v \<and>
    paymentDayOfMonth v \<le> daysInMonth (fst (targetMonth v i)) (snd (targetMonth v i)) \<longrightarrow>
      paymentDate v i =
        \<lparr>getFullYear = fst (targetMonth v i), getMonth = snd (targetMonth v i),
         getDate = paymentDayOfMonth v\<rparr>) \<and>
   (daysInMonth (fst (targetMonth v i)) (snd (targetMonth v i)) < paymentDayOfMonth v \<and>
    paymentDayOfMonth v \<le> 31 \<longrightarrow>
      paymentDate v i =
        \<lparr>getFullYear = fst (nextMonth (targetMonth v i)),
         getMonth = snd (nextMonth (targetMonth v i)),
         getDate = paymentDayOfMonth v
                   - daysInMonth (fst (targetMonth v i)) (snd (targetMonth v i))\<rparr>)"
  by (simp add: paymentDate_def newDate_def targetMonth_def carryDay_in_month carryDay_overflow)

theorem due_date_rolls_forward_witness:
  "targetMonth endOfMonthLoan 2 = (2024, 2) \<and>
   1 \<le> paymentDayOfMonth endOfMonthLoan \<and>
   paymentDayOfMonth endOfMonthLoan \<le> daysInMonth 2024 2 \<and>
   paymentDate endOfMonthLoan 2 = \<lparr>getFullYear = 2024, getMonth = 2, getDate = 31\<rparr> \<and>
   targetMonth endOfMonthLoan 3 = (2024, 3) \<and>
   daysInMonth 2024 3 < paymentDayOfMonth endOfMonthLoan \<and>
   paymentDayOfMonth endOfMonthLoan \<le> 31 \<and>
   paymentDate endOfMonthLoan 3 = \<lparr>getFullYear = 2024, getMonth = 4, getDate = 1\<rparr>"
proof -
  have t: "targetMonth endOfMonthLoan 2 = (2024, 2)" "targetMonth endOfMonthLoan 3 = (2024, 3)"
    by (simp_all add: targetMonth_def endOfMonthLoan_def fullYear_def)
  have d: "daysInMonth 2024 2 = 31" "daysInMonth 2024 3 = 30"
    by (simp_all add: daysInMonth_def)
  have p: "paymentDayOfMonth endOfMonthLoan = 31" by (simp add: endOfMonthLoan_def)
  have n: "nextMonth (2024, 3) = (2024, 4)"
    by (simp add: nextMonth_def)
  show ?thesis
    using due_date_rolls_forward [of endOfMonthLoan 2] due_date_rolls_forward [of endOfMonthLoan 3]
    by (simp add: t d p n)
qed

lemma paymentsLoop_eq:
  "paymentsLoop today v i acc =
     acc @ [\<lparr>date = paymentDate v k, vehicle = v,
              remaining = int (loanTermInMonths v) - int k\<rparr>.
            k \<leftarrow> [i..<loanTermInMonths v], getTime today \<le> getTime (paymentDate v k)]"
proof (induction today v i acc rule: paymentsLoop.induct)
  case (1 today v i payments)
  show ?case
  proof (cases "i < loanTermInMonths v")
    case True
    then have "[i..<loanTermInMonths v] = i # [Suc i..<loanTermInMonths v]"
      by (simp add: upt_conv_Cons)
    with True 1 show ?thesis
      by (subst paymentsLoop.simps) simp
  next
    case False
    then show ?thesis by (subst paymentsLoop.simps) simp
  qed
qed

lemma forEach_eq:
  "foldl (\<lambda>payments v. paymentsLoop today v 0 payments) acc vs =
     acc @ concat (map (\<lambda>v. [\<lparr>date = paymentDate v k, vehicle = v,
                                remaining = int (loanTermInMonths v) - int k\<rparr>.
              k \<leftarrow> [0..<loanTermInMonths v], getTime today \<le> getTime (paymentDate v k)]) vs)"
  by (induction vs arbitrary: acc) (simp_all add: paymentsLoop_eq)

text \<open>
  Claim C5: for every list of loans and every date \<open>today\<close>, the schedule holds
  exactly (as a multiset: each event once per loan and month index) the events
  of the month indices \<open>i\<close> from 0 to the term minus one whose due date, built
  from the start year, the start month plus \<open>i\<close> and the payment day, is not
  before \<open>today\<close>, each with the number of payments remaining equal to the
  term minus \<open>i\<close>; and the schedule is sorted ascending by due date.
\<close>

theorem schedule_exact_and_sorted:
  "mset (allFuturePayments today userVehicles) =
     mset (concat (map (\<lambda>v. [\<lparr>date = paymentDate v i, vehicle = v,
                                remaining = int (loanTermInMonths v) - int i\<rparr>.
                              i \<leftarrow> [0..<loanTermInMonths v],
                              getTime today \<le> getTime (paymentDate v i)]) userVehicles)) \<and>
   sorted (map (\<lambda>p. getTime (date p)) (allFuturePayments today userVehicles))"
  unfolding allFuturePayments_def forEach_eq by simp

theorem schedule_exact_and_sorted_witness:
  "map (\<lambda>p. (getTime (date p), remaining p))
       (allFuturePayments \<lparr>getFullYear = 2024, getMonth = 2, getDate = 15\<rparr>
          [endOfMonthLoan, exampleLease\<lparr>loanTermInMonths := 3\<rparr>])
     = [((2024, 2, 31), 2), ((2024, 3, 10), 1), ((2024, 4, 1), 1)] \<and>
   sorted (map (\<lambda>p. getTime (date p))
       (allFuturePayments \<lparr>getFullYear = 2024, getMonth = 2, getDate = 15\<rparr>
          [endOfMonthLoan, exampleLease\<lparr>loanTermInMonths := 3\<rparr>]))"
proof -
  have "map (\<lambda>p. (getTime (date p), remaining p))
       (allFuturePayments \<lparr>getFullYear = 2024, getMonth = 2, getDate = 15\<rparr>
          [endOfMonthLoan, exampleLease\<lparr>loanTermInMonths := 3\<rparr>])
     = [((2024, 2, 31), 2), ((2024, 3, 10), 1), ((2024, 4, 1), 1)]"
    by code_simp
  with schedule_exact_and_sorted [of "\<lparr>getFullYear = 2024, getMonth = 2, getDate = 15\<rparr>"
      "[endOfMonthLoan, exampleLease\<lparr>loanTermInMonths := 3\<rparr>]"]
  show ?thesis by blast
qed

end
